theory Spec2Isabelle
  imports Main "HOL-Library.Sublist" "HOL-Library.Char_ord" "HOL-Library.List_Lexorder"
begin

section \<open>The host-side ChromeOS configuration library (libcros\_config\_host.py)\<close>

text \<open>
  A shallow embedding of \<^verbatim>\<open>CrosConfig\<close> and its nested classes \<^verbatim>\<open>Node\<close>,
  \<^verbatim>\<open>Model\<close> and \<^verbatim>\<open>Property\<close>. The tree is immutable after construction, so every
  method is a function of the object and of the configuration it belongs to (the
  \<^verbatim>\<open>cros_config\<close> back reference of the source is the argument \<open>cfg\<close>). A raised exception
  is the \<open>Inl\<close> branch of a sum, a returned value the \<open>Inr\<close> branch; Python's \<^verbatim>\<open>None\<close> is
  \<open>None\<close> of an option.
\<close>

subsection \<open>Exceptions\<close>

datatype py_key = StrKey string | IntKey int

datatype py_error =
    KeyError py_key
  | TypeError
  | AttributeError
  | UnboundLocalError
  | ValueError string
  | IndexError

subsection \<open>Ordered dictionaries\<close>

text \<open>
  An \<^verbatim>\<open>OrderedDict\<close> is the list of its items in insertion order. Assigning to a key that
  is present replaces the value in place; assigning to a new key appends the item.
\<close>

type_synonym ('k, 'v) odict = "('k \<times> 'v) list"

definition od_get :: "('k, 'v) odict \<Rightarrow> 'k \<Rightarrow> 'v option" where
  "od_get d k = map_of d k"

definition od_contains :: "('k, 'v) odict \<Rightarrow> 'k \<Rightarrow> bool" where
  "od_contains d k = (k \<in> set (map fst d))"

definition od_keys :: "('k, 'v) odict \<Rightarrow> 'k list" where
  "od_keys d = map fst d"

definition od_values :: "('k, 'v) odict \<Rightarrow> 'v list" where
  "od_values d = map snd d"

fun od_set :: "('k, 'v) odict \<Rightarrow> 'k \<Rightarrow> 'v \<Rightarrow> ('k, 'v) odict" where
  "od_set [] k v = [(k, v)]"
| "od_set ((k', v') # d) k v = (if k' = k then (k, v) # d else (k', v') # od_set d k v)"

definition od_of_items :: "('k \<times> 'v) list \<Rightarrow> ('k, 'v) odict" where
  "od_of_items kvs = foldl (\<lambda>d (k, v). od_set d k v) [] kvs"

subsection \<open>Strings\<close>

text \<open>
  Python 2 \<^verbatim>\<open>str\<close> is a byte string, here \<open>string\<close>. \<open>str_split sep s\<close> is
  \<^verbatim>\<open>s.split(sep)\<close> for a one-character separator, \<open>str_join sep xs\<close> is
  \<^verbatim>\<open>sep.join(xs)\<close>, \<open>str_remove c s\<close> is \<^verbatim>\<open>s.replace(c, '')\<close> and \<open>upper\<close> is
  \<^verbatim>\<open>s.upper()\<close> in the C locale (only the letters a to z change).
\<close>

fun str_split :: "char \<Rightarrow> string \<Rightarrow> string list" where
  "str_split sep [] = [[]]"
| "str_split sep (c # cs) =
     (if c = sep then [] # str_split sep cs
      else (case str_split sep cs of
              [] \<Rightarrow> [[c]]
            | w # ws \<Rightarrow> (c # w) # ws))"

fun str_join :: "string \<Rightarrow> string list \<Rightarrow> string" where
  "str_join sep [] = []"
| "str_join sep [x] = x"
| "str_join sep (x # y # ys) = x @ sep @ str_join sep (y # ys)"

definition startswith :: "string \<Rightarrow> string \<Rightarrow> bool" where
  "startswith s p = (take (length p) s = p)"

definition endswith :: "string \<Rightarrow> string \<Rightarrow> bool" where
  "endswith s p = (length p \<le> length s \<and> drop (length s - length p) s = p)"

definition str_remove :: "char \<Rightarrow> string \<Rightarrow> string" where
  "str_remove c s = filter (\<lambda>x. x \<noteq> c) s"



subsection \<open>Property, Node, Model and CrosConfig\<close>

text \<open>
  \<^verbatim>\<open>Property\<close> copies the name and the value of the parsed property and keeps the parsed
  property for \<^verbatim>\<open>GetPhandle\<close>. The values the library works on are Python 2 strings.
  The field \<open>p_phandle\<close> holds what the parsed property answers to \<^verbatim>\<open>GetPhandle()\<close>:
  the handle, or \<open>None\<close> when it raises.
\<close>

datatype property =
  Property (p_name: string) (p_value: string) (p_phandle: "int option")

text \<open>
  Modelled from the spec: \<^verbatim>\<open>fdt_prop.GetPhandle()\<close> belongs to the device-tree parser,
  which is not part of the sources. The spec gives it as the integer handle of the
  property, failing with \<^verbatim>\<open>TypeError\<close> when the value is not a phandle.
\<close>

definition GetPhandle :: "property \<Rightarrow> py_error + int" where
  "GetPhandle prop =
     (case p_phandle prop of
        None \<Rightarrow> Inl TypeError
      | Some h \<Rightarrow> Inr h)"

text \<open>
  A \<^verbatim>\<open>Node\<close> has its name and two ordered dictionaries, the child nodes by name and the
  properties by name. A \<^verbatim>\<open>Model\<close> is a node; \<open>fdt_path\<close> is the \<^verbatim>\<open>path\<close> of the parsed
  node it wraps, which \<^verbatim>\<open>GetTouchFirmwareFiles\<close> reports in its errors.
\<close>

datatype node =
  Node (name: string) (subnodes: "(string \<times> node) list")
       (properties: "(string \<times> property) list")

datatype model = Model (model_node: node) (fdt_path: string)

record cros_config =
  models :: "(string \<times> model) list"
  phandle_to_node :: "int \<rightharpoonup> node"

subsection \<open>Node.FollowPhandle\<close>

text \<open>
  \<^verbatim>\<open>prop = self.properties.get(prop_name); if not prop: return None\<close>: a \<^verbatim>\<open>Property\<close>
  object is always true, so only a missing property gives \<^verbatim>\<open>None\<close>. The subscript
  \<^verbatim>\<open>phandle_to_node[...]\<close> raises \<^verbatim>\<open>KeyError\<close> for a handle that is not a key.
\<close>

definition FollowPhandle :: "cros_config \<Rightarrow> node \<Rightarrow> string \<Rightarrow> py_error + node option" where
  "FollowPhandle cfg self prop_name =
     (case od_get (properties self) prop_name of
        None \<Rightarrow> Inr None
      | Some prop \<Rightarrow>
          (case GetPhandle prop of
             Inl e \<Rightarrow> Inl e
           | Inr h \<Rightarrow>
               (case phandle_to_node cfg h of
                  None \<Rightarrow> Inl (KeyError (IntKey h))
                | Some target \<Rightarrow> Inr (Some target))))"

subsection \<open>Node.ChildNodeFromPath\<close>

text \<open>
  The method splits the path at \<^verbatim>\<open>/\<close>, drops the empty parts, resolves the first part and
  calls itself on the child with the remaining parts joined again. When the node has a
  \<^verbatim>\<open>shares\<close> property and the linked node has no child of that name, no branch assigns
  \<^verbatim>\<open>sub_node\<close>, and the \<^verbatim>\<open>return\<close> statement that reads it raises
  \<^verbatim>\<open>UnboundLocalError\<close>.
\<close>

definition path_parts_of :: "string \<Rightarrow> string list" where
  "path_parts_of relative_path = filter (\<lambda>p. p \<noteq> []) (str_split CHR ''/'' relative_path)"

lemma str_split_not_Nil: "str_split sep s \<noteq> []"
  by (induction s) (auto split: list.splits)

lemma length_str_join_split: "length (str_join [sep] (str_split sep s)) = length s"
proof (induction s)
  case Nil
  show ?case by simp
next
  case (Cons c cs)
  obtain w ws where ws: "str_split sep cs = w # ws"
    using str_split_not_Nil [of sep cs] by (cases "str_split sep cs") auto
  show ?case
  proof (cases "c = sep")
    case True
    with Cons ws show ?thesis by simp
  next
    case False
    with Cons ws show ?thesis by (cases ws) auto
  qed
qed

lemma length_str_join_Cons:
  "length (str_join sep (x # xs)) =
     length x + (if xs = [] then 0 else length sep + length (str_join sep xs))"
  by (cases xs) auto

lemma length_str_join_filter:
  "length (str_join sep (filter (\<lambda>p. p \<noteq> []) xs)) \<le> length (str_join sep xs)"
proof (induction xs)
  case Nil
  show ?case by simp
next
  case (Cons x xs)
  have "filter (\<lambda>p. p \<noteq> []) xs \<noteq> [] \<Longrightarrow> xs \<noteq> []"
    by auto
  with Cons show ?case
    by (auto simp: length_str_join_Cons simp del: str_join.simps(2,3))
qed

lemma length_str_join_tl:
  "x \<noteq> [] \<Longrightarrow> length (str_join [sep] xs) < length (str_join [sep] (x # xs))"
  by (cases xs) auto

lemma path_parts_shorter:
  assumes "path_parts_of relative_path = part # rest"
  shows "length (str_join ''/'' rest) < length relative_path"
proof -
  have "part \<noteq> []"
    using assms unfolding path_parts_of_def
    by (metis (mono_tags, lifting) filter_eq_ConsD)
  then have "length (str_join ''/'' rest) < length (str_join ''/'' (part # rest))"
    by (rule length_str_join_tl)
  also have "\<dots> \<le> length (str_join ''/'' (str_split CHR ''/'' relative_path))"
    using length_str_join_filter [of "''/''" "str_split CHR ''/'' relative_path"] assms
    unfolding path_parts_of_def by simp
  also have "\<dots> = length relative_path"
    by (rule length_str_join_split)
  finally show ?thesis .
qed

function ChildNodeFromPath :: "cros_config \<Rightarrow> node \<Rightarrow> string \<Rightarrow> py_error + node option" where
  "ChildNodeFromPath cfg self relative_path =
     (if relative_path = [] then Inr (Some self)
      else
        (case path_parts_of relative_path of
           [] \<Rightarrow> Inr (Some self)
         | part # rest \<Rightarrow>
             (case od_get (subnodes self) part of
                Some sub_node \<Rightarrow> ChildNodeFromPath cfg sub_node (str_join ''/'' rest)
              | None \<Rightarrow>
                  if od_contains (properties self) ''shares'' then
                    (case FollowPhandle cfg self ''shares'' of
                       Inl e \<Rightarrow> Inl e
                     | Inr None \<Rightarrow> Inl AttributeError
                     | Inr (Some shared) \<Rightarrow>
                         (case od_get (subnodes shared) part of
                            Some sub_node \<Rightarrow>
                              ChildNodeFromPath cfg sub_node (str_join ''/'' rest)
                          | None \<Rightarrow> Inl UnboundLocalError))
                  else Inr None)))"
  by pat_completeness auto
termination
  by (relation "measure (\<lambda>(cfg, self, relative_path). length relative_path)")
     (auto dest: path_parts_shorter)

declare ChildNodeFromPath.simps [simp del]

subsection \<open>Node.ChildPropertyFromPath\<close>

text \<open>
  \<^verbatim>\<open>if not child_node\<close> and \<^verbatim>\<open>if not prop\<close> test for \<^verbatim>\<open>None\<close>: nodes and properties
  are objects without a truth value of their own.
\<close>

definition ChildPropertyFromPath ::
  "cros_config \<Rightarrow> node \<Rightarrow> string \<Rightarrow> string \<Rightarrow> py_error + property option" where
  "ChildPropertyFromPath cfg self relative_path property_name =
     (case ChildNodeFromPath cfg self relative_path of
        Inl e \<Rightarrow> Inl e
      | Inr None \<Rightarrow> Inr None
      | Inr (Some child_node) \<Rightarrow>
          (case od_get (properties child_node) property_name of
             Some prop \<Rightarrow> Inr (Some prop)
           | None \<Rightarrow>
               if od_contains (properties child_node) ''shares'' then
                 (case FollowPhandle cfg child_node ''shares'' of
                    Inl e \<Rightarrow> Inl e
                  | Inr None \<Rightarrow> Inl AttributeError
                  | Inr (Some shared) \<Rightarrow> Inr (od_get (properties shared) property_name))
               else Inr None))"

subsection \<open>Node.GetMergedProperties\<close>

text \<open>
  The dictionary starts from the node's own properties, taken by \<^verbatim>\<open>prop.name\<close>, without
  the phandle property and without \<^verbatim>\<open>reg\<close>. The loop over the linked node's items then
  adds each name that is not yet a key and does not end in \<^verbatim>\<open>phandle\<close>.
\<close>

definition merge_item ::
  "(string, string) odict \<Rightarrow> string \<times> property \<Rightarrow> (string, string) odict" where
  "merge_item props item =
     (case item of (nm, prop) \<Rightarrow>
        if \<not> od_contains props nm \<and> \<not> endswith nm ''phandle''
        then od_set props nm (p_value prop) else props)"

definition own_props :: "node \<Rightarrow> string \<Rightarrow> (string, string) odict" where
  "own_props self phandle_prop =
     od_of_items
       (map (\<lambda>prop. (p_name prop, p_value prop))
          (filter (\<lambda>prop. p_name prop \<notin> set [phandle_prop, ''reg''])
             (od_values (properties self))))"

definition GetMergedProperties ::
  "cros_config \<Rightarrow> node \<Rightarrow> string \<Rightarrow> py_error + (string, string) odict" where
  "GetMergedProperties cfg self phandle_prop =
     (let props = own_props self phandle_prop in
      case FollowPhandle cfg self phandle_prop of
        Inl e \<Rightarrow> Inl e
      | Inr None \<Rightarrow> Inr props
      | Inr (Some phandle_node) \<Rightarrow> Inr (foldl merge_item props (properties phandle_node)))"

subsection \<open>Model.GetFirmwareUris\<close>

text \<open>
  \<open>format_uri bcs model fname\<close> is \<^verbatim>\<open>uri_format.format(bcs=..., model=..., fname=...)\<close>
  for the fixed \<^verbatim>\<open>uri_format\<close> of the method (the lemma \<open>format_text_uri_format\<close>
  below compares it with the scan of \<^verbatim>\<open>str.format\<close>). The slices \<^verbatim>\<open>[8:]\<close> and \<^verbatim>\<open>[6:]\<close> are
  \<open>drop 8\<close> and \<open>drop 6\<close>.
\<close>

definition uri_format :: string where
  "uri_format =
     ''gs://chromeos-binaries/HOME/bcs-{bcs}/overlay-{bcs}/'' @
     ''chromeos-base/chromeos-firmware-{model}/{fname}''"

definition format_uri :: "string \<Rightarrow> string \<Rightarrow> string \<Rightarrow> string" where
  "format_uri bcs model_name fname =
     ''gs://chromeos-binaries/HOME/bcs-'' @ bcs @ ''/overlay-'' @ bcs @
     ''/chromeos-base/chromeos-firmware-'' @ model_name @ ''/'' @ fname"

definition valid_images :: "(string, string) odict \<Rightarrow> string list" where
  "valid_images props =
     map snd (filter (\<lambda>(n, p). endswith n ''-image'' \<and> startswith p ''bcs://'') props)"

definition GetFirmwareUris :: "cros_config \<Rightarrow> model \<Rightarrow> py_error + string list" where
  "GetFirmwareUris cfg self =
     (case ChildNodeFromPath cfg (model_node self) ''/firmware'' of
        Inl e \<Rightarrow> Inl e
      | Inr None \<Rightarrow> Inr []
      | Inr (Some firmware_node) \<Rightarrow>
          (case GetMergedProperties cfg firmware_node ''shares'' of
             Inl e \<Rightarrow> Inl e
           | Inr props \<Rightarrow>
               (case od_get props ''bcs-overlay'' of
                  None \<Rightarrow> Inr []
                | Some v \<Rightarrow>
                    (let bcs_overlay = drop 8 v;
                         file_names = map (drop 6) (valid_images props)
                     in Inr (map (format_uri bcs_overlay (name (model_node self)))
                               file_names)))))"

subsection \<open>The built-in repr of a string and str of a list of strings\<close>

text \<open>
  \<^verbatim>\<open>'%s' % props.keys()\<close> prints the list of keys: \<^verbatim>\<open>[\<close>, the \<^verbatim>\<open>repr\<close> of each key
  separated by a comma and a blank, \<^verbatim>\<open>]\<close>. The \<^verbatim>\<open>repr\<close> of a Python 2 string puts it in
  single quotes (in double quotes when it holds a single quote and no double quote) and
  escapes the quote, the backslash, tab, newline, carriage return and, as \<^verbatim>\<open>\xhh\<close>, every
  byte below the blank or from 127 on.
\<close>

definition hex_digit :: "nat \<Rightarrow> char" where
  "hex_digit n = (if n < 10 then char_of (48 + n) else char_of (87 + n))"

definition repr_char :: "char \<Rightarrow> char \<Rightarrow> string" where
  "repr_char quote c =
     (if c = quote \<or> c = CHR 0x5C then [CHR 0x5C, c]
      else if c = CHR 0x09 then [CHR 0x5C, CHR ''t'']
      else if c = CHR 0x0A then [CHR 0x5C, CHR ''n'']
      else if c = CHR 0x0D then [CHR 0x5C, CHR ''r'']
      else if (of_char c :: nat) < 32 \<or> 127 \<le> (of_char c :: nat) then
        [CHR 0x5C, CHR ''x'', hex_digit ((of_char c :: nat) div 16),
         hex_digit ((of_char c :: nat) mod 16)]
      else [c])"

definition py_repr :: "string \<Rightarrow> string" where
  "py_repr s =
     (let quote = (if CHR 0x27 \<in> set s \<and> CHR 0x22 \<notin> set s then CHR 0x22 else CHR 0x27)
      in [quote] @ concat (map (repr_char quote) s) @ [quote])"

definition str_of_list :: "string list \<Rightarrow> string" where
  "str_of_list xs = ''['' @ str_join '', '' (map py_repr xs) @ '']''"

subsection \<open>The built-in str.format, as GetTouchFilename calls it\<close>

text \<open>
  \<^verbatim>\<open>template.format(props, **props)\<close> reads the template from left to right and
  raises at the first offending place, before the rest of the template is read. Outside
  a field, \<^verbatim>\<open>{{\<close> and \<^verbatim>\<open>}}\<close> stand for one brace, a single \<^verbatim>\<open>}\<close> is a
  \<^verbatim>\<open>ValueError\<close> and a single \<^verbatim>\<open>{\<close> opens a replacement field, which runs to the
  next \<^verbatim>\<open>}\<close>. The field is a field name, then an optional conversion (\<^verbatim>\<open>!\<close> and one
  character), then an optional format specification (\<^verbatim>\<open>:\<close> and the rest).

  \<open>read_field\<close> gives the outcome of the fields computed here:
  \<^item> the field name is a plain name \<open>k\<close> (looked up among the keyword arguments) or
    \<^verbatim>\<open>0[k]\<close> (looked up in the first positional argument); both are \<open>props\<close>, and a
    missing \<open>k\<close> raises \<^verbatim>\<open>KeyError(k)\<close>, before the conversion and the format
    specification are applied;
  \<^item> a value that is found is inserted as it is when there is no conversion or the
    conversion \<^verbatim>\<open>s\<close>, and as its \<^verbatim>\<open>repr\<close> for the conversion \<^verbatim>\<open>r\<close>, in each case with
    an empty format specification.

  Every other field has the outcome \<open>OtherField\<close>: another positional argument or
  automatic numbering, attribute access, an index that is a number, a conversion or
  a format specification applied to a value, a nested field. What Python answers for a
  template with such a field depends on the rest of the language (the printed form of
  objects, the format specification language), which is not part of the sources. It is
  taken as the parameter \<open>builtin_format\<close>: the outcome of the built-in for the whole
  template and the properties. \<open>str_format\<close> asks it exactly when the scan meets such a
  field before any error.
\<close>

definition all_digits :: "string \<Rightarrow> bool" where
  "all_digits s = list_all (\<lambda>c. c \<in> set ''0123456789'') s"

definition field_special :: "char \<Rightarrow> bool" where
  "field_special c = (c \<in> set ''{[].!:'')"

definition plain_key :: "string \<Rightarrow> bool" where
  "plain_key k =
     (k \<noteq> [] \<and> \<not> all_digits k \<and>
      list_all (\<lambda>c. c \<noteq> CHR ''}'' \<and> \<not> field_special c) k)"

definition field_key :: "string \<Rightarrow> string option" where
  "field_key field_name =
     (if plain_key field_name then Some field_name
      else if take 2 field_name = ''0['' \<and> 3 \<le> length field_name \<and>
              last field_name = CHR '']'' \<and> plain_key (butlast (drop 2 field_name))
      then Some (butlast (drop 2 field_name))
      else None)"

definition conversion_ok :: "string \<Rightarrow> bool" where
  "conversion_ok tail =
     (case tail of
        [] \<Rightarrow> True
      | c # cs \<Rightarrow>
          if c = CHR '':'' then True
          else (case cs of
                  [] \<Rightarrow> False
                | conversion # spec \<Rightarrow> spec = [] \<or> hd spec = CHR '':''))"

datatype field_result = Value string | FieldKeyError string | OtherField

definition read_field :: "(string, string) odict \<Rightarrow> string \<Rightarrow> field_result" where
  "read_field props field =
     (let field_name = takeWhile (\<lambda>c. c \<noteq> CHR '':'' \<and> c \<noteq> CHR ''!'') field;
          tail = dropWhile (\<lambda>c. c \<noteq> CHR '':'' \<and> c \<noteq> CHR ''!'') field
      in case field_key field_name of
           None \<Rightarrow> OtherField
         | Some k \<Rightarrow>
             if \<not> conversion_ok tail then OtherField
             else
               (case od_get props k of
                  None \<Rightarrow> FieldKeyError k
                | Some v \<Rightarrow>
                    if tail \<in> set [[], '':'', ''!s'', ''!s:''] then Value v
                    else if tail \<in> set [''!r'', ''!r:''] then Value (py_repr v)
                    else OtherField))"

datatype format_result =
    Formatted string
  | MissingKey string
  | Malformed string
  | AskBuiltin

definition emit :: "string \<Rightarrow> format_result \<Rightarrow> format_result" where
  "emit s r = (case r of Formatted t \<Rightarrow> Formatted (s @ t) | other \<Rightarrow> other)"

fun format_text :: "(string, string) odict \<Rightarrow> string \<Rightarrow> format_result"
and format_field :: "(string, string) odict \<Rightarrow> string \<Rightarrow> string \<Rightarrow> format_result" where
  "format_text props [] = Formatted []"
| "format_text props (c # cs) =
     (if c = CHR ''{'' then
        (case cs of
           [] \<Rightarrow> Malformed ''Single '{' encountered in format string''
         | d # ds \<Rightarrow>
             if d = CHR ''{'' then emit ''{'' (format_text props ds)
             else format_field props [] cs)
      else if c = CHR ''}'' then
        (case cs of
           [] \<Rightarrow> Malformed ''Single '}' encountered in format string''
         | d # ds \<Rightarrow>
             if d = CHR ''}'' then emit ''}'' (format_text props ds)
             else Malformed ''Single '}' encountered in format string'')
      else emit [c] (format_text props cs))"
| "format_field props field [] = AskBuiltin"
| "format_field props field (c # cs) =
     (if c = CHR ''}'' then
        (case read_field props field of
           Value v \<Rightarrow> emit v (format_text props cs)
         | FieldKeyError k \<Rightarrow> MissingKey k
         | OtherField \<Rightarrow> AskBuiltin)
      else if c = CHR ''{'' then AskBuiltin
      else format_field props (field @ [c]) cs)"

definition str_format ::
  "(string \<Rightarrow> (string, string) odict \<Rightarrow> py_error + string) \<Rightarrow>
   string \<Rightarrow> (string, string) odict \<Rightarrow> py_error + string" where
  "str_format builtin_format template props =
     (case format_text props template of
        Formatted s \<Rightarrow> Inr s
      | MissingKey k \<Rightarrow> Inl (KeyError (StrKey k))
      | Malformed m \<Rightarrow> Inl (ValueError m)
      | AskBuiltin \<Rightarrow> builtin_format template props)"

subsection \<open>Model.GetTouchFilename\<close>

text \<open>
  \<^verbatim>\<open>props[fname_prop]\<close> stands before the \<^verbatim>\<open>try\<close>, so a missing template property is a
  \<^verbatim>\<open>KeyError\<close> of its own. Inside the \<^verbatim>\<open>try\<close> only \<^verbatim>\<open>KeyError\<close> is caught and raised
  again as \<^verbatim>\<open>ValueError\<close>, with the message built by \<open>lacks_message\<close>; every other
  exception of \<^verbatim>\<open>format\<close> passes. The template in the message is the one the \<^verbatim>\<open>$\<close>
  characters were removed from. \<open>quoted s\<close> is \<open>s\<close> between two single quotes, and
  \<open>key_text\<close> is what \<^verbatim>\<open>%s\<close> prints for \<^verbatim>\<open>e.message\<close>: the key itself, or the digits of
  a key that is a number.
\<close>

function str_of_nat :: "nat \<Rightarrow> string" where
  "str_of_nat n =
     (if n < 10 then [char_of (48 + n)]
      else str_of_nat (n div 10) @ [char_of (48 + n mod 10)])"
  by pat_completeness auto
termination
  by (relation "measure (\<lambda>n. n)") auto

declare str_of_nat.simps [simp del]

definition str_of_int :: "int \<Rightarrow> string" where
  "str_of_int i = (if i < 0 then ''-'' @ str_of_nat (nat (- i)) else str_of_nat (nat i))"

definition key_text :: "py_key \<Rightarrow> string" where
  "key_text key = (case key of StrKey s \<Rightarrow> s | IntKey i \<Rightarrow> str_of_int i)"

definition quoted :: "string \<Rightarrow> string" where
  "quoted s = [CHR 0x27] @ s @ [CHR 0x27]"

definition lacks_message :: "string \<Rightarrow> string \<Rightarrow> string list \<Rightarrow> string \<Rightarrow> string" where
  "lacks_message node_path template keys missing =
     ''node '' @ quoted node_path @ '': Format string '' @ quoted template @
     '' has properties '' @ quoted (str_of_list keys) @ '' but lacks '' @ quoted missing"

definition GetTouchFilename ::
  "(string \<Rightarrow> (string, string) odict \<Rightarrow> py_error + string) \<Rightarrow>
   string \<Rightarrow> (string, string) odict \<Rightarrow> string \<Rightarrow> py_error + string" where
  "GetTouchFilename builtin_format node_path props fname_prop =
     (case od_get props fname_prop of
        None \<Rightarrow> Inl (KeyError (StrKey fname_prop))
      | Some v \<Rightarrow>
          (let template = str_remove CHR ''$'' v in
           case str_format builtin_format template props of
             Inr s \<Rightarrow> Inr s
           | Inl (KeyError key) \<Rightarrow>
               Inl (ValueError
                 (lacks_message node_path template (od_keys props) (key_text key)))
           | Inl e \<Rightarrow> Inl e))"

subsection \<open>Model.GetTouchFirmwareFiles\<close>




subsection \<open>CrosConfig.GetTouchFirmwareFiles\<close>





section \<open>Notions the claims are stated with\<close>

subsection \<open>Templates of text and placeholders\<close>

text \<open>
  The claim about \<^verbatim>\<open>GetTouchFilename\<close> speaks of a template with \<^verbatim>\<open>{key}\<close>
  placeholders, of the keys it references and of the template with each placeholder
  replaced. These definitions follow the claim's words, to be compared with what the
  method computes: a template is a list of pieces, \<open>template_of\<close> is its text (a brace
  of the text is written twice, as \<^verbatim>\<open>str.format\<close> wants it), \<open>missing_keys\<close> lists the
  referenced keys the properties lack, in the order of the template, and \<open>filled\<close> is
  the template with every placeholder replaced by the property's value. The keys are
  plain (\<open>plain_key\<close>): not empty, not a number, without a brace and without the
  characters \<^verbatim>\<open>[ ] . ! :\<close>, so that \<^verbatim>\<open>{key}\<close> is a field that names the key.
\<close>

datatype piece = Text string | Placeholder string

definition escape_braces :: "string \<Rightarrow> string" where
  "escape_braces s =
     concat (map (\<lambda>c. if c = CHR ''{'' \<or> c = CHR ''}'' then [c, c] else [c]) s)"

fun template_of :: "piece list \<Rightarrow> string" where
  "template_of [] = []"
| "template_of (Text s # ps) = escape_braces s @ template_of ps"
| "template_of (Placeholder k # ps) = ''{'' @ k @ ''}'' @ template_of ps"

fun placeholders :: "piece list \<Rightarrow> string list" where
  "placeholders [] = []"
| "placeholders (Text s # ps) = placeholders ps"
| "placeholders (Placeholder k # ps) = k # placeholders ps"

definition missing_keys :: "(string, string) odict \<Rightarrow> piece list \<Rightarrow> string list" where
  "missing_keys props ps = filter (\<lambda>k. od_get props k = None) (placeholders ps)"

fun fill :: "(string, string) odict \<Rightarrow> piece \<Rightarrow> string" where
  "fill props (Text s) = s"
| "fill props (Placeholder k) = (case od_get props k of None \<Rightarrow> [] | Some v \<Rightarrow> v)"

definition filled :: "(string, string) odict \<Rightarrow> piece list \<Rightarrow> string" where
  "filled props ps = concat (map (fill props) ps)"

subsection \<open>The touch files of one model\<close>


section \<open>Example configurations\<close>

text \<open>
  A model \<^verbatim>\<open>reef\<close> whose \<^verbatim>\<open>firmware\<close> node shares the node with phandle 1, and touch
  devices that link their controller type through \<^verbatim>\<open>touch-type\<close>. \<open>cell n\<close> is the
  four-byte value of a property that holds the handle \<open>n\<close>, for \<open>n\<close> below 256.
\<close>

definition cell :: "nat \<Rightarrow> string" where
  "cell n = [CHR 0x00, CHR 0x00, CHR 0x00, char_of n]"

definition shared_firmware :: node where
  "shared_firmware =
     Node ''shared'' []
       [(''phandle'', Property ''phandle'' (cell 1) (Some 1)),
        (''bcs-overlay'', Property ''bcs-overlay'' ''overlay-reef-private'' None),
        (''ec-image'', Property ''ec-image'' ''bcs://reef_ec.bin'' None),
        (''main-image'', Property ''main-image'' ''Reef.9042.bin'' None)]"

definition reef_firmware :: node where
  "reef_firmware =
     Node ''firmware'' []
       [(''shares'', Property ''shares'' (cell 1) (Some 1)),
        (''key-id'', Property ''key-id'' ''REEF'' None)]"

definition reef :: model where
  "reef = Model (Node ''reef'' [(''firmware'', reef_firmware)] []) ''/chromeos/models/reef''"

definition reef_cfg :: cros_config where
  "reef_cfg = \<lparr> models = [(''reef'', reef)], phandle_to_node = [1 \<mapsto> shared_firmware] \<rparr>"

text \<open>The same tree read with an index that lacks the handle 1.\<close>

definition dangling_cfg :: cros_config where
  "dangling_cfg = \<lparr> models = [(''reef'', reef)], phandle_to_node = Map.empty \<rparr>"

text \<open>
  A model node that itself has a \<^verbatim>\<open>shares\<close> property; neither it nor the node it shares
  has a child.
\<close>

definition bare_node :: node where
  "bare_node = Node ''base'' [] [(''phandle'', Property ''phandle'' (cell 1) (Some 1))]"

definition sharing_node :: node where
  "sharing_node = Node ''pyro'' [] [(''shares'', Property ''shares'' (cell 1) (Some 1))]"

definition pyro :: model where
  "pyro = Model sharing_node ''/chromeos/models/pyro''"

definition sharing_cfg :: cros_config where
  "sharing_cfg = \<lparr> models = [(''pyro'', pyro)], phandle_to_node = [1 \<mapsto> bare_node] \<rparr>"

text \<open>
  A touch device with a \<^verbatim>\<open>reg\<close> property whose controller node has a \<^verbatim>\<open>reg\<close> and a
  \<^verbatim>\<open>touch-type\<close> property of its own.
\<close>

definition controller :: node where
  "controller =
     Node ''elan-touchscreen'' []
       [(''phandle'', Property ''phandle'' (cell 2) (Some 2)),
        (''reg'', Property ''reg'' (cell 9) None),
        (''touch-type'', Property ''touch-type'' (cell 3) (Some 3)),
        (''vendor'', Property ''vendor'' ''elan'' None)]"

definition touchscreen :: node where
  "touchscreen =
     Node ''touchscreen@0'' []
       [(''reg'', Property ''reg'' (cell 0) None),
        (''touch-type'', Property ''touch-type'' (cell 2) (Some 2)),
        (''vendor'', Property ''vendor'' ''own'' None)]"

definition touch_cfg :: cros_config where
  "touch_cfg = \<lparr> models = [], phandle_to_node = [2 \<mapsto> controller] \<rparr>"

text \<open>A node with a chain of children \<^verbatim>\<open>a\<close>, \<^verbatim>\<open>b\<close>, \<^verbatim>\<open>c\<close>.\<close>

definition leaf_c :: node where
  "leaf_c = Node ''c'' [] [(''depth'', Property ''depth'' ''3'' None)]"

definition inner_b :: node where
  "inner_b = Node ''b'' [(''c'', leaf_c)] []"

definition inner_a :: node where
  "inner_a = Node ''a'' [(''b'', inner_b)] []"

definition chain :: node where
  "chain = Node ''root'' [(''a'', inner_a)] []"

text \<open>
  A model whose \<^verbatim>\<open>firmware\<close> node has a \<^verbatim>\<open>bcs-overlay\<close> value that does not start with
  \<^verbatim>\<open>overlay-\<close>.
\<close>

definition private_firmware :: node where
  "private_firmware =
     Node ''firmware'' []
       [(''bcs-overlay'', Property ''bcs-overlay'' ''reef-private'' None),
        (''main-image'', Property ''main-image'' ''bcs://Reef.9042.tbz2'' None),
        (''pd-image'', Property ''pd-image'' ''bcs://Reef_PD.tbz2'' None)]"

definition snappy :: model where
  "snappy =
     Model (Node ''snappy'' [(''firmware'', private_firmware)] []) ''/chromeos/models/snappy''"

text \<open>
  The templates of the examples have fields that \<open>read_field\<close> computes, so the
  built-in is never asked about them; \<open>other_format\<close> stands for its answers on the
  remaining templates.
\<close>

definition other_format :: "string \<Rightarrow> (string, string) odict \<Rightarrow> py_error + string" where
  "other_format template props = Inl TypeError"

text \<open>
  The merged properties of a touch device, with the \<^verbatim>\<open>MODEL\<close> entry added: one
  template whose keys are all there and one that names a key that is not.
\<close>

definition touch_props :: "(string, string) odict" where
  "touch_props =
     [(''vendor'', ''elan''),
      (''firmware-bin'', ''${MODEL}_${vendor}.bin''),
      (''firmware-symlink'', ''${MODEL}_${missing-key}.bin''),
      (''MODEL'', ''REEF'')]"

text \<open>
  Models with touch devices. \<open>caroline\<close> and \<open>kevin\<close> name the same file for the same
  controller; \<open>sand\<close> and \<open>coral\<close> use one firmware file under a symlink that carries the
  model's name.
\<close>

definition fixed_device :: node where
  "fixed_device =
     Node ''touchscreen@0'' []
       [(''firmware-bin'', Property ''firmware-bin'' ''elan.bin'' None),
        (''firmware-symlink'', Property ''firmware-symlink'' ''touch.bin'' None)]"



definition touch_model :: "string \<Rightarrow> node list \<Rightarrow> model" where
  "touch_model model_name devices =
     Model (Node model_name
              [(''touch'', Node ''touch'' (map (\<lambda>d. (name d, d)) devices) [])] [])
       (''/chromeos/models/'' @ model_name)"

definition caroline :: model where
  "caroline = touch_model ''caroline'' [fixed_device]"





text \<open>
  Properties with a template that has a single closing brace before a field whose key
  is missing.
\<close>

definition brace_props :: "(string, string) odict" where
  "brace_props = [(''firmware-bin'', ''a}b{gone}''), (''MODEL'', ''REEF'')]"

section \<open>Properties of the dictionaries and of FollowPhandle\<close>

lemma od_get_Some_contains: "od_get d k = Some v \<Longrightarrow> od_contains d k"
  unfolding od_get_def od_contains_def
  by (metis map_of_SomeD fst_conv image_eqI set_map)

lemma FollowPhandle_Some_contains:
  "FollowPhandle cfg self prop_name = Inr (Some target) \<Longrightarrow>
   od_contains (properties self) prop_name"
  unfolding FollowPhandle_def
  by (auto split: option.splits sum.splits dest: od_get_Some_contains)

section \<open>Properties of paths\<close>

lemma str_split_no_sep: "sep \<notin> set a \<Longrightarrow> str_split sep a = [a]"
  by (induction a) auto

lemma str_split_append_sep:
  "sep \<notin> set a \<Longrightarrow> str_split sep (a @ sep # r) = a # str_split sep r"
  by (induction a) auto

lemma str_split_parts_no_sep: "w \<in> set (str_split sep s) \<Longrightarrow> sep \<notin> set w"
proof (induction s arbitrary: w)
  case Nil
  then show ?case by simp
next
  case (Cons c cs)
  obtain v vs where vs: "str_split sep cs = v # vs"
    using str_split_not_Nil [of sep cs] by (cases "str_split sep cs") auto
  show ?case
  proof (cases "c = sep")
    case True
    with Cons show ?thesis by auto
  next
    case False
    with Cons.prems vs have "w = c # v \<or> w \<in> set vs" by auto
    with Cons.IH vs False show ?thesis by auto
  qed
qed

lemma path_parts_of_Nil [simp]: "path_parts_of [] = []"
  by (simp add: path_parts_of_def)

lemma path_parts_of_single:
  "a \<noteq> [] \<Longrightarrow> CHR ''/'' \<notin> set a \<Longrightarrow> path_parts_of a = [a]"
  by (simp add: path_parts_of_def str_split_no_sep)

lemma path_parts_of_append:
  "a \<noteq> [] \<Longrightarrow> CHR ''/'' \<notin> set a \<Longrightarrow>
   path_parts_of (a @ CHR ''/'' # r) = a # path_parts_of r"
  by (simp add: path_parts_of_def str_split_append_sep)

lemma path_parts_of_join:
  "\<forall>w \<in> set ps. w \<noteq> [] \<and> CHR ''/'' \<notin> set w \<Longrightarrow> path_parts_of (str_join ''/'' ps) = ps"
proof (induction ps rule: induct_list012)
  case 1
  show ?case by simp
next
  case (2 x)
  then show ?case by (simp add: path_parts_of_single)
next
  case (3 x y zs)
  then show ?case
    using path_parts_of_append [of x "str_join ''/'' (y # zs)"] by simp
qed

text \<open>Joining the parts of a path and splitting again gives the same parts.\<close>

lemma path_parts_of_normal:
  "path_parts_of (str_join ''/'' (path_parts_of r)) = path_parts_of r"
  by (rule path_parts_of_join) (auto simp: path_parts_of_def dest: str_split_parts_no_sep)

text \<open>
  One step of \<^verbatim>\<open>ChildNodeFromPath\<close> in terms of the parts alone: the empty path has no
  parts, so the first test of the method is the first case.
\<close>

lemma ChildNodeFromPath_by_parts:
  "ChildNodeFromPath cfg self r =
     (case path_parts_of r of
        [] \<Rightarrow> Inr (Some self)
      | part # rest \<Rightarrow>
          (case od_get (subnodes self) part of
             Some sub_node \<Rightarrow> ChildNodeFromPath cfg sub_node (str_join ''/'' rest)
           | None \<Rightarrow>
               if od_contains (properties self) ''shares'' then
                 (case FollowPhandle cfg self ''shares'' of
                    Inl e \<Rightarrow> Inl e
                  | Inr None \<Rightarrow> Inl AttributeError
                  | Inr (Some shared) \<Rightarrow>
                      (case od_get (subnodes shared) part of
                         Some sub_node \<Rightarrow>
                           ChildNodeFromPath cfg sub_node (str_join ''/'' rest)
                       | None \<Rightarrow> Inl UnboundLocalError))
               else Inr None))"
  by (subst ChildNodeFromPath.simps) simp

lemma ChildNodeFromPath_parts:
  assumes "path_parts_of p = path_parts_of q"
  shows "ChildNodeFromPath cfg self p = ChildNodeFromPath cfg self q"
  by (subst ChildNodeFromPath_by_parts [of cfg self p],
      subst ChildNodeFromPath_by_parts [of cfg self q]) (simp add: assms)

lemma ChildNodeFromPath_empty [simp]: "ChildNodeFromPath cfg self [] = Inr (Some self)"
  by (simp add: ChildNodeFromPath.simps)

section \<open>The fixed URI format\<close>

text \<open>\<open>format_uri\<close> is what the scan of \<^verbatim>\<open>str.format\<close> gives for \<^verbatim>\<open>uri_format\<close>.\<close>

lemma format_text_uri_format:
  "format_text [(''bcs'', bcs), (''model'', model_name), (''fname'', fname)] uri_format =
     Formatted (format_uri bcs model_name fname)"
  by (simp add: uri_format_def format_uri_def emit_def od_get_def read_field_def
      field_key_def plain_key_def conversion_ok_def all_digits_def field_special_def)

section \<open>Properties of the format model and of the error message\<close>

lemma emit_emit [simp]: "emit a (emit b r) = emit (a @ b) r"
  by (cases r) (simp_all add: emit_def)

lemma emit_Nil [simp]: "emit [] r = r"
  by (cases r) (simp_all add: emit_def)

lemma emit_simps [simp]:
  "emit s (Formatted t) = Formatted (s @ t)"
  "emit s (MissingKey k) = MissingKey k"
  by (simp_all add: emit_def)

lemma format_text_escape:
  "format_text props (escape_braces s @ rest) = emit s (format_text props rest)"
proof (induction s)
  case Nil
  show ?case by (simp add: escape_braces_def)
next
  case (Cons c s)
  have step: "escape_braces (c # s) =
      (if c = CHR ''{'' \<or> c = CHR ''}'' then [c, c] else [c]) @ escape_braces s"
    by (simp add: escape_braces_def)
  show ?case
    using Cons.IH by (auto simp: step)
qed

lemma read_field_plain:
  assumes "plain_key k"
  shows "read_field props k =
           (case od_get props k of None \<Rightarrow> FieldKeyError k | Some v \<Rightarrow> Value v)"
proof -
  have chars: "\<forall>c \<in> set k. c \<noteq> CHR '':'' \<and> c \<noteq> CHR ''!''"
    using assms by (auto simp: plain_key_def field_special_def list_all_iff)
  then have name: "takeWhile (\<lambda>c. c \<noteq> CHR '':'' \<and> c \<noteq> CHR ''!'') k = k"
    and tail: "dropWhile (\<lambda>c. c \<noteq> CHR '':'' \<and> c \<noteq> CHR ''!'') k = []"
    by (simp_all add: takeWhile_eq_all_conv)
  show ?thesis
    using assms
    by (simp add: read_field_def name tail field_key_def conversion_ok_def
        split: option.splits)
qed

lemma format_field_scan:
  "list_all (\<lambda>c. c \<noteq> CHR ''}'' \<and> c \<noteq> CHR ''{'') k \<Longrightarrow>
   format_field props field (k @ CHR ''}'' # rest) =
     (case read_field props (field @ k) of
        Value v \<Rightarrow> emit v (format_text props rest)
      | FieldKeyError missing \<Rightarrow> MissingKey missing
      | OtherField \<Rightarrow> AskBuiltin)"
  by (induction k arbitrary: field) auto

lemma format_text_placeholder:
  assumes "plain_key k"
  shows "format_text props (''{'' @ k @ ''}'' @ rest) =
           (case od_get props k of
              None \<Rightarrow> MissingKey k
            | Some v \<Rightarrow> emit v (format_text props rest))"
proof -
  obtain c k' where k: "k = c # k'"
    using assms by (cases k) (auto simp: plain_key_def)
  have c: "c \<noteq> CHR ''{''"
    using assms by (auto simp: plain_key_def k field_special_def)
  have braces: "list_all (\<lambda>c. c \<noteq> CHR ''}'' \<and> c \<noteq> CHR ''{'') k"
    using assms by (auto simp: plain_key_def field_special_def list_all_iff)
  have "format_text props (''{'' @ k @ ''}'' @ rest) =
      format_field props [] (k @ CHR ''}'' # rest)"
    using c by (simp add: k)
  also have "\<dots> = (case od_get props k of
              None \<Rightarrow> MissingKey k
            | Some v \<Rightarrow> emit v (format_text props rest))"
    by (simp add: format_field_scan [OF braces] read_field_plain [OF assms]
        split: option.splits)
  finally show ?thesis .
qed

lemma format_text_template:
  assumes "list_all plain_key (placeholders ps)"
  shows "format_text props (template_of ps) =
           (case missing_keys props ps of
              [] \<Rightarrow> Formatted (filled props ps)
            | k # ks \<Rightarrow> MissingKey k)"
  using assms
proof (induction ps rule: template_of.induct)
  case 1
  show ?case by (simp add: missing_keys_def filled_def)
next
  case (2 s ps)
  then show ?case
    by (simp add: format_text_escape missing_keys_def filled_def split: list.splits)
next
  case (3 k ps)
  then have k: "plain_key k" and IH: "format_text props (template_of ps) =
           (case missing_keys props ps of
              [] \<Rightarrow> Formatted (filled props ps)
            | k # ks \<Rightarrow> MissingKey k)"
    by simp_all
  show ?case
    unfolding template_of.simps format_text_placeholder [OF k] IH
    by (simp add: missing_keys_def filled_def split: option.splits list.splits)
qed

lemma sublist_str_join:
  "x \<in> set xs \<Longrightarrow> sublist x (str_join sep xs)"
proof (induction xs rule: induct_list012)
  case 1
  then show ?case by simp
next
  case (2 y)
  then show ?case by simp
next
  case (3 y z zs)
  show ?case
  proof (cases "x = y")
    case True
    then show ?thesis by simp
  next
    case False
    with 3 have "sublist x (str_join sep (z # zs))" by simp
    then obtain u v where "str_join sep (z # zs) = u @ x @ v"
      by (auto simp: sublist_def)
    then have "str_join sep (y # z # zs) = (y @ sep @ u) @ x @ v" by simp
    then show ?thesis unfolding sublist_def by blast
  qed
qed

lemma lacks_message_parts:
  "sublist node_path (lacks_message node_path template keys missing)"
  "sublist template (lacks_message node_path template keys missing)"
  "sublist (str_of_list keys) (lacks_message node_path template keys missing)"
  "sublist missing (lacks_message node_path template keys missing)"
proof -
  show "sublist node_path (lacks_message node_path template keys missing)"
    unfolding lacks_message_def quoted_def sublist_def
    by (rule exI [of _ "''node '' @ [CHR 0x27]"]) auto
  show "sublist template (lacks_message node_path template keys missing)"
    unfolding lacks_message_def quoted_def sublist_def
    by (rule exI [of _ "''node '' @ [CHR 0x27] @ node_path @ [CHR 0x27] @ '': Format string '' @ [CHR 0x27]"]) auto
  show "sublist (str_of_list keys) (lacks_message node_path template keys missing)"
    unfolding lacks_message_def quoted_def sublist_def
    by (rule exI [of _ "''node '' @ [CHR 0x27] @ node_path @ [CHR 0x27] @ '': Format string '' @ [CHR 0x27] @ template @ [CHR 0x27] @ '' has properties '' @ [CHR 0x27]"]) auto
  show "sublist missing (lacks_message node_path template keys missing)"
    unfolding lacks_message_def quoted_def sublist_def
    by (rule exI [of _ "''node '' @ [CHR 0x27] @ node_path @ [CHR 0x27] @ '': Format string '' @ [CHR 0x27] @ template @ [CHR 0x27] @ '' has properties '' @ [CHR 0x27] @ str_of_list keys @ [CHR 0x27] @ '' but lacks '' @ [CHR 0x27]"]) auto
qed

lemma sublist_repr_str_of_list:
  "k \<in> set keys \<Longrightarrow> sublist (py_repr k) (str_of_list keys)"
proof -
  assume "k \<in> set keys"
  then have "sublist (py_repr k) (str_join '', '' (map py_repr keys))"
    by (intro sublist_str_join) simp
  then show ?thesis
    unfolding str_of_list_def by (auto simp: sublist_def) (metis append.assoc append_Cons)
qed


lemma py_repr_plain:
  assumes "list_all (\<lambda>c. 32 \<le> (of_char c :: nat) \<and> (of_char c :: nat) < 127 \<and>
                        c \<noteq> CHR 0x27 \<and> c \<noteq> CHR 0x5C) s"
  shows "py_repr s = quoted s"
proof -
  have "concat (map (repr_char CHR 0x27) s) = s"
    using assms by (induction s) (auto simp: repr_char_def)
  moreover have "CHR 0x27 \<notin> set s"
    using assms by (auto simp: list_all_iff)
  ultimately show ?thesis
    by (simp add: py_repr_def quoted_def Let_def)
qed

section \<open>Properties of the touch file collection\<close>












section \<open>Properties of assignment to an ordered dictionary\<close>

lemma od_get_od_set: "od_get (od_set d k v) k' = (if k' = k then Some v else od_get d k')"
  by (induction d) (auto simp: od_get_def)

lemma od_keys_od_set:
  "od_keys (od_set d k v) = (if k \<in> set (od_keys d) then od_keys d else od_keys d @ [k])"
  by (induction d) (force simp: od_keys_def)+

lemma od_contains_od_set: "od_contains (od_set d k v) k' = (k' = k \<or> od_contains d k')"
  using od_keys_od_set [of d k v] by (auto simp: od_contains_def od_keys_def)

lemma od_set_fresh: "\<not> od_contains d k \<Longrightarrow> od_set d k v = d @ [(k, v)]"
  by (induction d) (auto simp: od_contains_def)

lemma od_of_items_distinct:
  "distinct (map fst (d @ kvs)) \<Longrightarrow> foldl (\<lambda>d (k, v). od_set d k v) d kvs = d @ kvs"
proof (induction kvs arbitrary: d)
  case Nil
  show ?case by simp
next
  case (Cons kv kvs)
  obtain k v where kv: "kv = (k, v)" by (cases kv)
  have fresh: "\<not> od_contains d k"
    using Cons.prems by (auto simp: kv od_contains_def)
  have "distinct (map fst ((d @ [(k, v)]) @ kvs))"
    using Cons.prems by (simp add: kv)
  from Cons.IH [OF this] show ?case
    by (simp add: kv od_set_fresh [OF fresh])
qed

lemma merge_item_keeps:
  "od_contains d k \<Longrightarrow>
   od_contains (merge_item d item) k \<and> od_get (merge_item d item) k = od_get d k"
  by (cases item) (auto simp: merge_item_def od_contains_od_set od_get_od_set)

lemma foldl_merge_item_keeps:
  "od_contains d k \<Longrightarrow> od_get (foldl merge_item d items) k = od_get d k"
proof (induction items arbitrary: d)
  case Nil
  show ?case by simp
next
  case (Cons item items)
  from merge_item_keeps [OF Cons.prems, of item] Cons.IH [of "merge_item d item"]
  show ?case by simp
qed

section \<open>The claims\<close>

subsection \<open>C1: the merged properties and the excluded keys\<close>

text \<open>
  C1 says that the merged properties never hold the key \<^verbatim>\<open>reg\<close> nor the phandle
  property's own name, and that the node's own value wins for every key both nodes have.
  The filter on \<^verbatim>\<open>reg\<close> and on the phandle property is applied to the node's own
  properties only; the linked node's properties are filtered by \<^verbatim>\<open>endswith('phandle')\<close>.
  For the touch device below the result holds \<^verbatim>\<open>reg\<close> with the controller's value and
  \<^verbatim>\<open>touch-type\<close> with the controller's value, although the device has both keys itself.
\<close>

theorem GetMergedProperties_keeps_linked_reg:
  "GetMergedProperties touch_cfg touchscreen ''touch-type'' =
     Inr [(''vendor'', ''own''), (''reg'', cell 9), (''touch-type'', cell 3)]"
  by (simp add: GetMergedProperties_def own_props_def od_of_items_def od_values_def
      merge_item_def od_contains_def endswith_def FollowPhandle_def GetPhandle_def
      od_get_def touch_cfg_def touchscreen_def controller_def)

subsection \<open>C2: a first segment that names no child\<close>

text \<open>
  C2 says that \<^verbatim>\<open>ChildNodeFromPath\<close> returns \<^verbatim>\<open>None\<close> when the first segment names
  neither a child of the node nor a child of the node it shares. The node below has a
  \<^verbatim>\<open>shares\<close> property that resolves, neither node has a child \<^verbatim>\<open>firmware\<close>, and the
  call raises \<^verbatim>\<open>UnboundLocalError\<close>.
\<close>

theorem ChildNodeFromPath_shares_miss:
  "od_get (subnodes sharing_node) ''firmware'' = None \<and>
   FollowPhandle sharing_cfg sharing_node ''shares'' = Inr (Some bare_node) \<and>
   od_get (subnodes bare_node) ''firmware'' = None \<and>
   ChildNodeFromPath sharing_cfg sharing_node ''firmware'' = Inl UnboundLocalError"
  by (simp add: ChildNodeFromPath.simps path_parts_of_def od_get_def od_contains_def
      FollowPhandle_def GetPhandle_def sharing_node_def sharing_cfg_def bare_node_def)

subsection \<open>C3: a property looked up on the node itself\<close>

text \<open>
  C3: let \<open>N\<close> have a \<^verbatim>\<open>shares\<close> property whose phandle resolves to \<open>L\<close>, and let the
  path \<open>p\<close> resolve to \<open>N\<close> itself. Then \<^verbatim>\<open>N.ChildPropertyFromPath(p, k)\<close> is the
  property \<open>k\<close> of \<open>N\<close> when \<open>N\<close> has one, otherwise the property \<open>k\<close> of \<open>L\<close> when \<open>L\<close> has
  one, otherwise \<^verbatim>\<open>None\<close>.
\<close>

theorem ChildPropertyFromPath_shares:
  assumes link: "FollowPhandle cfg N ''shares'' = Inr (Some L)"
      and self: "ChildNodeFromPath cfg N p = Inr (Some N)"
  shows "ChildPropertyFromPath cfg N p k =
           Inr (case od_get (properties N) k of
                  Some prop \<Rightarrow> Some prop
                | None \<Rightarrow> od_get (properties L) k)"
proof -
  have "od_contains (properties N) ''shares''"
    using link by (rule FollowPhandle_Some_contains)
  then show ?thesis
    by (simp add: ChildPropertyFromPath_def self link split: option.splits)
qed

theorem ChildPropertyFromPath_shares_witness:
  "ChildPropertyFromPath reef_cfg reef_firmware ''/'' ''key-id'' =
     Inr (Some (Property ''key-id'' ''REEF'' None)) \<and>
   ChildPropertyFromPath reef_cfg reef_firmware ''/'' ''ec-image'' =
     Inr (Some (Property ''ec-image'' ''bcs://reef_ec.bin'' None)) \<and>
   ChildPropertyFromPath reef_cfg reef_firmware ''/'' ''pd-image'' = Inr None"
proof -
  have link: "FollowPhandle reef_cfg reef_firmware ''shares'' = Inr (Some shared_firmware)"
    by (simp add: FollowPhandle_def GetPhandle_def od_get_def reef_cfg_def reef_firmware_def)
  have self: "ChildNodeFromPath reef_cfg reef_firmware ''/'' = Inr (Some reef_firmware)"
    by (simp add: ChildNodeFromPath.simps path_parts_of_def)
  show ?thesis
    using ChildPropertyFromPath_shares [OF link self, of "''key-id''"]
      ChildPropertyFromPath_shares [OF link self, of "''ec-image''"]
      ChildPropertyFromPath_shares [OF link self, of "''pd-image''"]
    by (simp add: od_get_def reef_firmware_def shared_firmware_def)
qed

subsection \<open>C4: the touch files of all models, sorted and without duplicates\<close>




subsection \<open>C5: path traversal composes\<close>

text \<open>
  C5: resolving \<^verbatim>\<open>a/b/c\<close> gives what resolving \<^verbatim>\<open>a\<close> and then \<^verbatim>\<open>b/c\<close> on the returned
  child gives. For every node, every segment \<open>a\<close> (not empty, without \<^verbatim>\<open>/\<close>) and every
  rest \<open>r\<close> of the path: \<^verbatim>\<open>ChildNodeFromPath(a + '/' + r)\<close> is
  \<^verbatim>\<open>ChildNodeFromPath(r)\<close> of the child that \<^verbatim>\<open>ChildNodeFromPath(a)\<close> returns; when the
  first step returns \<^verbatim>\<open>None\<close> or raises, so does the whole path.
\<close>

theorem ChildNodeFromPath_compose:
  assumes "a \<noteq> []" and "CHR ''/'' \<notin> set a"
  shows "ChildNodeFromPath cfg self (a @ ''/'' @ r) =
           (case ChildNodeFromPath cfg self a of
              Inl e \<Rightarrow> Inl e
            | Inr None \<Rightarrow> Inr None
            | Inr (Some child) \<Rightarrow> ChildNodeFromPath cfg child r)"
proof -
  have norm: "ChildNodeFromPath cfg child (str_join ''/'' (path_parts_of r)) =
      ChildNodeFromPath cfg child r" for child
    by (rule ChildNodeFromPath_parts) (rule path_parts_of_normal)
  have whole: "path_parts_of (a @ CHR ''/'' # r) = a # path_parts_of r"
    using assms by (simp add: path_parts_of_append)
  have first: "path_parts_of a = [a]"
    using assms by (rule path_parts_of_single)
  show ?thesis
    by (subst ChildNodeFromPath_by_parts [of cfg self "a @ ''/'' @ r"],
        subst ChildNodeFromPath_by_parts [of cfg self a])
       (simp add: whole first norm split: option.splits sum.splits)
qed

theorem ChildNodeFromPath_compose_witness:
  "ChildNodeFromPath reef_cfg chain ''a'' = Inr (Some inner_a) \<and>
   ChildNodeFromPath reef_cfg inner_a ''b/c'' = Inr (Some leaf_c) \<and>
   ChildNodeFromPath reef_cfg chain ''a/b/c'' = Inr (Some leaf_c)"
proof -
  have seg: "''a'' \<noteq> []" "CHR ''/'' \<notin> set ''a''"
    by simp_all
  have first: "ChildNodeFromPath reef_cfg chain ''a'' = Inr (Some inner_a)"
    by (simp add: ChildNodeFromPath.simps path_parts_of_def od_get_def chain_def)
  have rest: "ChildNodeFromPath reef_cfg inner_a ''b/c'' = Inr (Some leaf_c)"
    by (simp add: ChildNodeFromPath.simps path_parts_of_def od_get_def inner_a_def
        inner_b_def)
  show ?thesis
    using ChildNodeFromPath_compose [OF seg, of reef_cfg chain "''b/c''"] first rest
    by simp
qed

subsection \<open>C6: the form of a firmware URI\<close>

text \<open>
  C6: let \<^verbatim>\<open>/firmware\<close> resolve, and let its merged properties hold \<^verbatim>\<open>bcs-overlay\<close> with
  the value \<^verbatim>\<open>overlay-\<close> followed by \<open>overlay\<close>. Then \<^verbatim>\<open>GetFirmwareUris\<close> returns, in
  the order of the merged properties, one URI
  \<^verbatim>\<open>gs://chromeos-binaries/HOME/bcs-{overlay}/overlay-{overlay}/chromeos-base/chromeos-firmware-{model}/{file}\<close>
  for every property whose name ends in \<^verbatim>\<open>-image\<close> and whose value starts with
  \<^verbatim>\<open>bcs://\<close>, the file being the value without that prefix. For the model \<^verbatim>\<open>reef\<close>
  with the overlay \<^verbatim>\<open>reef-private\<close> and the one image \<^verbatim>\<open>bcs://reef_ec.bin\<close> the result
  is the one URI of the scenario.
\<close>

theorem GetFirmwareUris_fixed_form:
  assumes fw: "ChildNodeFromPath cfg (model_node self) ''/firmware'' = Inr (Some firmware_node)"
      and merged: "GetMergedProperties cfg firmware_node ''shares'' = Inr props"
      and overlay: "od_get props ''bcs-overlay'' = Some (''overlay-'' @ overlay)"
  shows "GetFirmwareUris cfg self =
           Inr (map (\<lambda>(n, p). ''gs://chromeos-binaries/HOME/bcs-'' @ overlay @ ''/overlay-'' @
                       overlay @ ''/chromeos-base/chromeos-firmware-'' @
                       name (model_node self) @ ''/'' @ drop 6 p)
                  (filter (\<lambda>(n, p). endswith n ''-image'' \<and> startswith p ''bcs://'') props)) \<and>
         (name (model_node self) = ''reef'' \<and> overlay = ''reef-private'' \<and>
          filter (\<lambda>(n, p). endswith n ''-image'' \<and> startswith p ''bcs://'') props =
            [(''ec-image'', ''bcs://reef_ec.bin'')] \<longrightarrow>
          GetFirmwareUris cfg self =
            Inr [''gs://chromeos-binaries/HOME/bcs-reef-private/overlay-reef-private/'' @
                 ''chromeos-base/chromeos-firmware-reef/reef_ec.bin''])"
proof -
  have general: "GetFirmwareUris cfg self =
           Inr (map (\<lambda>(n, p). ''gs://chromeos-binaries/HOME/bcs-'' @ overlay @ ''/overlay-'' @
                       overlay @ ''/chromeos-base/chromeos-firmware-'' @
                       name (model_node self) @ ''/'' @ drop 6 p)
                  (filter (\<lambda>(n, p). endswith n ''-image'' \<and> startswith p ''bcs://'') props))"
    by (simp add: GetFirmwareUris_def fw merged overlay valid_images_def format_uri_def
        case_prod_beta comp_def)
  show ?thesis
    by (rule conjI, rule general) (simp add: general)
qed

theorem GetFirmwareUris_fixed_form_witness:
  "GetFirmwareUris reef_cfg reef =
     Inr [''gs://chromeos-binaries/HOME/bcs-reef-private/overlay-reef-private/'' @
          ''chromeos-base/chromeos-firmware-reef/reef_ec.bin'']"
proof -
  have fw: "ChildNodeFromPath reef_cfg (model_node reef) ''/firmware'' = Inr (Some reef_firmware)"
    by (simp add: ChildNodeFromPath.simps path_parts_of_def od_get_def reef_def)
  have merged: "GetMergedProperties reef_cfg reef_firmware ''shares'' =
      Inr [(''key-id'', ''REEF''), (''bcs-overlay'', ''overlay-reef-private''),
           (''ec-image'', ''bcs://reef_ec.bin''), (''main-image'', ''Reef.9042.bin'')]"
    by (simp add: GetMergedProperties_def own_props_def od_of_items_def od_values_def
        merge_item_def od_contains_def endswith_def FollowPhandle_def GetPhandle_def
        od_get_def reef_cfg_def reef_firmware_def shared_firmware_def)
  have overlay: "od_get [(''key-id'', ''REEF''), (''bcs-overlay'', ''overlay-reef-private''),
           (''ec-image'', ''bcs://reef_ec.bin''), (''main-image'', ''Reef.9042.bin'')]
        ''bcs-overlay'' = Some (''overlay-'' @ ''reef-private'')"
    by (simp add: od_get_def)
  show ?thesis
    using GetFirmwareUris_fixed_form [OF fw merged overlay]
    by (simp add: reef_def endswith_def startswith_def)
qed

subsection \<open>C7: firmware URIs of a model without a firmware node\<close>

text \<open>
  C7 says that \<^verbatim>\<open>GetFirmwareUris\<close> returns an empty list, and raises nothing, for a
  model without a \<^verbatim>\<open>/firmware\<close> node. The model below has none, and the node it shares
  has none either; the call raises the \<^verbatim>\<open>UnboundLocalError\<close> of
  \<^verbatim>\<open>ChildNodeFromPath\<close>.
\<close>

theorem GetFirmwareUris_shares_miss:
  "od_get (subnodes (model_node pyro)) ''firmware'' = None \<and>
   GetFirmwareUris sharing_cfg pyro = Inl UnboundLocalError"
  by (simp add: GetFirmwareUris_def ChildNodeFromPath.simps path_parts_of_def od_get_def
      od_contains_def FollowPhandle_def GetPhandle_def pyro_def sharing_node_def
      sharing_cfg_def bare_node_def)

subsection \<open>C8: the touch file name and the error for a missing key\<close>

text \<open>
  C8 says that every call whose template names a key the properties lack raises
  \<^verbatim>\<open>ValueError\<close> with the node path, the template, the property names and the missing
  key in its message. The method catches \<^verbatim>\<open>KeyError\<close> only. The template
  \<^verbatim>\<open>a}b{gone}\<close> names the missing key \<^verbatim>\<open>gone\<close>, and \<^verbatim>\<open>str.format\<close> raises its own
  \<^verbatim>\<open>ValueError\<close> at the single closing brace before it reads the field; that error
  passes, and its message holds neither the node path nor the key.
\<close>

theorem GetTouchFilename_single_brace_counterexample:
  "od_get brace_props ''firmware-bin'' = Some ''a}b{gone}'' \<and>
   od_get brace_props ''gone'' = None \<and>
   GetTouchFilename other_format ''/chromeos/models/reef'' brace_props ''firmware-bin'' =
     Inl (ValueError ''Single '}' encountered in format string'') \<and>
   \<not> sublist ''/chromeos/models/reef'' ''Single '}' encountered in format string'' \<and>
   \<not> sublist ''gone'' ''Single '}' encountered in format string''"
proof -
  have "\<not> sublist ''/chromeos/models/reef'' ''Single '}' encountered in format string''"
    and "\<not> sublist ''gone'' ''Single '}' encountered in format string''"
    by code_simp+
  then show ?thesis
    by (simp add: GetTouchFilename_def str_format_def str_remove_def od_get_def
        brace_props_def emit_def Let_def)
qed

text \<open>
  C8 as amended. Let the template property hold, once its \<^verbatim>\<open>$\<close> characters are
  removed, a template of text and placeholders with plain keys. When the properties have
  every key of the template, \<^verbatim>\<open>GetTouchFilename\<close> returns the template with each
  placeholder replaced by the property's value. When a key is missing, the call raises
  \<^verbatim>\<open>ValueError\<close> with a message that holds the node path, the template, the
  property names as Python prints them, and the first missing key.

  For every template: when \<^verbatim>\<open>str.format\<close> raises \<^verbatim>\<open>KeyError\<close>, the call raises
  \<^verbatim>\<open>ValueError\<close> with such a message for the key of the error; when \<^verbatim>\<open>str.format\<close>
  returns, the call returns the same string; and every other exception of
  \<^verbatim>\<open>str.format\<close> is the exception of the call.
\<close>

theorem GetTouchFilename_template:
  assumes template: "od_get props fname_prop = Some raw"
  shows "(str_remove CHR ''$'' raw = template_of ps \<and> list_all plain_key (placeholders ps) \<longrightarrow>
            (missing_keys props ps = [] \<longrightarrow>
               GetTouchFilename builtin_format node_path props fname_prop =
                 Inr (filled props ps)) \<and>
            (missing_keys props ps \<noteq> [] \<longrightarrow>
               (let message = lacks_message node_path (template_of ps) (od_keys props)
                                (hd (missing_keys props ps))
                in GetTouchFilename builtin_format node_path props fname_prop =
                     Inl (ValueError message) \<and>
                   sublist node_path message \<and>
                   sublist (template_of ps) message \<and>
                   list_all (\<lambda>n. sublist (py_repr n) message) (od_keys props) \<and>
                   sublist (hd (missing_keys props ps)) message))) \<and>
         (\<forall>key. str_format builtin_format (str_remove CHR ''$'' raw) props =
                  Inl (KeyError key) \<longrightarrow>
            (let message = lacks_message node_path (str_remove CHR ''$'' raw) (od_keys props)
                             (key_text key)
             in GetTouchFilename builtin_format node_path props fname_prop =
                  Inl (ValueError message) \<and>
                sublist node_path message \<and>
                sublist (str_remove CHR ''$'' raw) message \<and>
                list_all (\<lambda>n. sublist (py_repr n) message) (od_keys props) \<and>
                sublist (key_text key) message)) \<and>
         (\<forall>s. str_format builtin_format (str_remove CHR ''$'' raw) props = Inr s \<longrightarrow>
            GetTouchFilename builtin_format node_path props fname_prop = Inr s) \<and>
         (\<forall>e. str_format builtin_format (str_remove CHR ''$'' raw) props = Inl e \<and>
              (\<forall>key. e \<noteq> KeyError key) \<longrightarrow>
            GetTouchFilename builtin_format node_path props fname_prop = Inl e)"
proof -
  have names: "list_all (\<lambda>n. sublist (py_repr n) (lacks_message node_path t (od_keys props) k))
      (od_keys props)" for t k
    unfolding list_all_iff
    by (meson sublist_repr_str_of_list lacks_message_parts(3) sublist_order.order_trans)
  have pieces: "(missing_keys props ps = [] \<longrightarrow>
               GetTouchFilename builtin_format node_path props fname_prop =
                 Inr (filled props ps)) \<and>
            (missing_keys props ps \<noteq> [] \<longrightarrow>
               (let message = lacks_message node_path (template_of ps) (od_keys props)
                                (hd (missing_keys props ps))
                in GetTouchFilename builtin_format node_path props fname_prop =
                     Inl (ValueError message) \<and>
                   sublist node_path message \<and>
                   sublist (template_of ps) message \<and>
                   list_all (\<lambda>n. sublist (py_repr n) message) (od_keys props) \<and>
                   sublist (hd (missing_keys props ps)) message))"
    if shape: "str_remove CHR ''$'' raw = template_of ps"
      and plain: "list_all plain_key (placeholders ps)"
  proof -
    have fmt: "str_format builtin_format (template_of ps) props =
      (case missing_keys props ps of
         [] \<Rightarrow> Inr (filled props ps)
       | k # ks \<Rightarrow> Inl (KeyError (StrKey k)))"
      unfolding str_format_def format_text_template [OF plain]
      by (simp split: list.splits)
    show ?thesis
      by (cases "missing_keys props ps")
         (simp_all add: GetTouchFilename_def template shape fmt Let_def key_text_def
            lacks_message_parts names)
  qed
  have caught: "GetTouchFilename builtin_format node_path props fname_prop =
        Inl (ValueError (lacks_message node_path (str_remove CHR ''$'' raw) (od_keys props)
          (key_text key)))"
    if "str_format builtin_format (str_remove CHR ''$'' raw) props = Inl (KeyError key)" for key
    using that by (simp add: GetTouchFilename_def template Let_def)
  have returned: "GetTouchFilename builtin_format node_path props fname_prop = Inr s"
    if "str_format builtin_format (str_remove CHR ''$'' raw) props = Inr s" for s
    using that by (simp add: GetTouchFilename_def template Let_def)
  have passed: "GetTouchFilename builtin_format node_path props fname_prop = Inl e"
    if "str_format builtin_format (str_remove CHR ''$'' raw) props = Inl e"
      and "\<forall>key. e \<noteq> KeyError key" for e
    using that by (cases e) (simp_all add: GetTouchFilename_def template Let_def)
  show ?thesis
    using pieces caught returned passed
    by (simp add: Let_def lacks_message_parts names)
qed

theorem GetTouchFilename_template_witness:
  "GetTouchFilename other_format ''/chromeos/models/reef'' touch_props ''firmware-bin'' =
     Inr ''REEF_elan.bin'' \<and>
   GetTouchFilename other_format ''/chromeos/models/reef'' touch_props ''firmware-symlink'' =
     Inl (ValueError
       (''node '' @ quoted ''/chromeos/models/reef'' @ '': Format string '' @
        quoted ''{MODEL}_{missing-key}.bin'' @ '' has properties '' @
        quoted (''['' @ quoted ''vendor'' @ '', '' @ quoted ''firmware-bin'' @ '', '' @
                quoted ''firmware-symlink'' @ '', '' @ quoted ''MODEL'' @ '']'') @
        '' but lacks '' @ quoted ''missing-key'')) \<and>
   GetTouchFilename other_format ''/chromeos/models/reef''
       [(''firmware-bin'', ''${0[gone]}_${MODEL!s}.bin''), (''MODEL'', ''REEF'')]
       ''firmware-bin'' =
     Inl (ValueError
       (''node '' @ quoted ''/chromeos/models/reef'' @ '': Format string '' @
        quoted ''{0[gone]}_{MODEL!s}.bin'' @ '' has properties '' @
        quoted (''['' @ quoted ''firmware-bin'' @ '', '' @ quoted ''MODEL'' @ '']'') @
        '' but lacks '' @ quoted ''gone''))"
proof -
  have bin: "od_get touch_props ''firmware-bin'' = Some ''${MODEL}_${vendor}.bin''"
    and link: "od_get touch_props ''firmware-symlink'' = Some ''${MODEL}_${missing-key}.bin''"
    by (simp_all add: od_get_def touch_props_def)
  have bin_pieces: "str_remove CHR ''$'' ''${MODEL}_${vendor}.bin'' =
        template_of [Placeholder ''MODEL'', Text ''_'', Placeholder ''vendor'', Text ''.bin''] \<and>
      list_all plain_key
        (placeholders [Placeholder ''MODEL'', Text ''_'', Placeholder ''vendor'', Text ''.bin''])"
    and link_pieces: "str_remove CHR ''$'' ''${MODEL}_${missing-key}.bin'' =
        template_of
          [Placeholder ''MODEL'', Text ''_'', Placeholder ''missing-key'', Text ''.bin''] \<and>
      list_all plain_key
        (placeholders
          [Placeholder ''MODEL'', Text ''_'', Placeholder ''missing-key'', Text ''.bin''])"
    by (simp_all add: str_remove_def escape_braces_def plain_key_def all_digits_def
        field_special_def)
  have bin_missing: "missing_keys touch_props
      [Placeholder ''MODEL'', Text ''_'', Placeholder ''vendor'', Text ''.bin''] = []"
    and link_missing: "missing_keys touch_props
      [Placeholder ''MODEL'', Text ''_'', Placeholder ''missing-key'', Text ''.bin''] =
        [''missing-key'']"
    by (simp_all add: missing_keys_def od_get_def touch_props_def)
  have first: "GetTouchFilename other_format ''/chromeos/models/reef'' touch_props
      ''firmware-bin'' = Inr ''REEF_elan.bin''"
    using GetTouchFilename_template [OF bin, of
        "[Placeholder ''MODEL'', Text ''_'', Placeholder ''vendor'', Text ''.bin'']"
        other_format "''/chromeos/models/reef''"]
      bin_pieces bin_missing
    by (simp add: filled_def od_get_def touch_props_def)
  have second: "GetTouchFilename other_format ''/chromeos/models/reef'' touch_props
      ''firmware-symlink'' =
     Inl (ValueError
       (''node '' @ quoted ''/chromeos/models/reef'' @ '': Format string '' @
        quoted ''{MODEL}_{missing-key}.bin'' @ '' has properties '' @
        quoted (''['' @ quoted ''vendor'' @ '', '' @ quoted ''firmware-bin'' @ '', '' @
                quoted ''firmware-symlink'' @ '', '' @ quoted ''MODEL'' @ '']'') @
        '' but lacks '' @ quoted ''missing-key''))"
    using GetTouchFilename_template [OF link, of
        "[Placeholder ''MODEL'', Text ''_'', Placeholder ''missing-key'', Text ''.bin'']"
        other_format "''/chromeos/models/reef''"]
      link_pieces link_missing
    by (simp add: Let_def lacks_message_def od_keys_def touch_props_def escape_braces_def
        str_of_list_def py_repr_def repr_char_def quoted_def)
  have indexed: "od_get [(''firmware-bin'', ''${0[gone]}_${MODEL!s}.bin''), (''MODEL'', ''REEF'')]
      ''firmware-bin'' = Some ''${0[gone]}_${MODEL!s}.bin''"
    by (simp add: od_get_def)
  have raised: "str_format other_format (str_remove CHR ''$'' ''${0[gone]}_${MODEL!s}.bin'')
      [(''firmware-bin'', ''${0[gone]}_${MODEL!s}.bin''), (''MODEL'', ''REEF'')] =
        Inl (KeyError (StrKey ''gone''))"
    by (simp add: str_format_def str_remove_def read_field_def field_key_def plain_key_def
        conversion_ok_def all_digits_def field_special_def od_get_def)
  have third: "GetTouchFilename other_format ''/chromeos/models/reef''
       [(''firmware-bin'', ''${0[gone]}_${MODEL!s}.bin''), (''MODEL'', ''REEF'')]
       ''firmware-bin'' =
     Inl (ValueError
       (''node '' @ quoted ''/chromeos/models/reef'' @ '': Format string '' @
        quoted ''{0[gone]}_{MODEL!s}.bin'' @ '' has properties '' @
        quoted (''['' @ quoted ''firmware-bin'' @ '', '' @ quoted ''MODEL'' @ '']'') @
        '' but lacks '' @ quoted ''gone''))"
    using GetTouchFilename_template [OF indexed, of "[]" other_format
        "''/chromeos/models/reef''"] raised
    by (simp add: Let_def lacks_message_def od_keys_def str_remove_def key_text_def
        str_of_list_def py_repr_def repr_char_def quoted_def)
  from first second third show ?thesis by simp
qed

subsection \<open>C9: a missing property and a dangling phandle\<close>

text \<open>
  C9: \<^verbatim>\<open>FollowPhandle\<close> returns \<^verbatim>\<open>None\<close> when the node has no property of that name.
  When the property is there and its handle is not a key of the phandle index, the call
  raises \<^verbatim>\<open>KeyError\<close>, and \<^verbatim>\<open>GetMergedProperties\<close>, which calls it, raises the same
  error.
\<close>

theorem FollowPhandle_absent_or_KeyError:
  "(od_get (properties self) prop_name = None \<longrightarrow>
      FollowPhandle cfg self prop_name = Inr None) \<and>
   (od_get (properties self) prop_name = Some prop \<and> GetPhandle prop = Inr h \<and>
    phandle_to_node cfg h = None \<longrightarrow>
      FollowPhandle cfg self prop_name = Inl (KeyError (IntKey h)) \<and>
      GetMergedProperties cfg self prop_name = Inl (KeyError (IntKey h)))"
  by (simp add: FollowPhandle_def GetMergedProperties_def)

theorem FollowPhandle_absent_or_KeyError_witness:
  "FollowPhandle dangling_cfg reef_firmware ''touch-type'' = Inr None \<and>
   FollowPhandle dangling_cfg reef_firmware ''shares'' = Inl (KeyError (IntKey 1)) \<and>
   GetMergedProperties dangling_cfg reef_firmware ''shares'' = Inl (KeyError (IntKey 1))"
proof -
  have absent: "od_get (properties reef_firmware) ''touch-type'' = None"
    by (simp add: od_get_def reef_firmware_def)
  have dangling:
    "od_get (properties reef_firmware) ''shares'' = Some (Property ''shares'' (cell 1) (Some 1)) \<and>
     GetPhandle (Property ''shares'' (cell 1) (Some 1)) = Inr 1 \<and>
     phandle_to_node dangling_cfg 1 = None"
    by (simp add: od_get_def reef_firmware_def GetPhandle_def dangling_cfg_def)
  show ?thesis
    using absent dangling
      FollowPhandle_absent_or_KeyError [of reef_firmware "''touch-type''" dangling_cfg]
      FollowPhandle_absent_or_KeyError
        [of reef_firmware "''shares''" dangling_cfg "Property ''shares'' (cell 1) (Some 1)" 1]
    by simp
qed

subsection \<open>C10: the overlay identifier is the value without its first eight characters\<close>

text \<open>
  C10: whatever the value \<open>v\<close> of \<^verbatim>\<open>bcs-overlay\<close> is, \<^verbatim>\<open>GetFirmwareUris\<close> returns the
  URIs built with \<open>v\<close> without its first eight characters. No prefix is tested and no
  value is refused.
\<close>

theorem GetFirmwareUris_overlay_unchecked:
  assumes fw: "ChildNodeFromPath cfg (model_node self) ''/firmware'' = Inr (Some firmware_node)"
      and merged: "GetMergedProperties cfg firmware_node ''shares'' = Inr props"
      and overlay: "od_get props ''bcs-overlay'' = Some v"
  shows "GetFirmwareUris cfg self =
           Inr (map (\<lambda>p. format_uri (drop 8 v) (name (model_node self)) (drop 6 p))
                  (valid_images props))"
  by (simp add: GetFirmwareUris_def fw merged overlay comp_def)

theorem GetFirmwareUris_overlay_unchecked_witness:
  "\<not> startswith ''reef-private'' ''overlay-'' \<and>
   GetFirmwareUris dangling_cfg snappy =
     Inr [''gs://chromeos-binaries/HOME/bcs-vate/overlay-vate/'' @
          ''chromeos-base/chromeos-firmware-snappy/Reef.9042.tbz2'',
          ''gs://chromeos-binaries/HOME/bcs-vate/overlay-vate/'' @
          ''chromeos-base/chromeos-firmware-snappy/Reef_PD.tbz2'']"
proof -
  have fw: "ChildNodeFromPath dangling_cfg (model_node snappy) ''/firmware'' =
      Inr (Some private_firmware)"
    by (simp add: ChildNodeFromPath.simps path_parts_of_def od_get_def snappy_def)
  have merged: "GetMergedProperties dangling_cfg private_firmware ''shares'' =
      Inr [(''bcs-overlay'', ''reef-private''), (''main-image'', ''bcs://Reef.9042.tbz2''),
           (''pd-image'', ''bcs://Reef_PD.tbz2'')]"
    by (simp add: GetMergedProperties_def own_props_def od_of_items_def od_values_def
        FollowPhandle_def od_get_def private_firmware_def)
  have overlay: "od_get [(''bcs-overlay'', ''reef-private''),
      (''main-image'', ''bcs://Reef.9042.tbz2''), (''pd-image'', ''bcs://Reef_PD.tbz2'')]
        ''bcs-overlay'' = Some ''reef-private''"
    by (simp add: od_get_def)
  show ?thesis
    using GetFirmwareUris_overlay_unchecked [OF fw merged overlay]
    by (simp add: snappy_def valid_images_def format_uri_def endswith_def startswith_def)
qed

section \<open>Further properties\<close>

subsection \<open>The node's own value wins in the merged properties\<close>

text \<open>
  For a node whose properties have distinct names: a property of the node that is
  neither \<^verbatim>\<open>reg\<close> nor the phandle property is in the merged properties with the node's
  own value, whatever the linked node holds under that name.
\<close>

theorem GetMergedProperties_own_value_wins:
  assumes merged: "GetMergedProperties cfg self phandle_prop = Inr props"
      and names: "distinct (map p_name (od_values (properties self)))"
      and own: "prop \<in> set (od_values (properties self))"
      and other: "p_name prop \<noteq> ''reg''" "p_name prop \<noteq> phandle_prop"
  shows "od_get props (p_name prop) = Some (p_value prop)"
proof -
  let ?kept = "filter (\<lambda>prop. p_name prop \<notin> set [phandle_prop, ''reg''])
      (od_values (properties self))"
  let ?items = "map (\<lambda>prop. (p_name prop, p_value prop)) ?kept"
  have keys: "map fst ?items = map p_name ?kept"
    by (simp add: comp_def)
  have dist: "distinct (map fst ?items)"
    unfolding keys using names by (rule distinct_map_filter)
  then have items: "own_props self phandle_prop = ?items"
    using od_of_items_distinct [of "[]" ?items] by (simp add: own_props_def od_of_items_def)
  have "(p_name prop, p_value prop) \<in> set ?items"
    using own other by auto
  with dist have get: "od_get (own_props self phandle_prop) (p_name prop) = Some (p_value prop)"
    unfolding items od_get_def by (intro map_of_is_SomeI)
  then have has: "od_contains (own_props self phandle_prop) (p_name prop)"
    by (rule od_get_Some_contains)
  show ?thesis
    using merged get foldl_merge_item_keeps [OF has]
    by (auto simp: GetMergedProperties_def Let_def split: sum.splits option.splits)
qed

theorem GetMergedProperties_own_value_wins_witness:
  "GetMergedProperties touch_cfg touchscreen ''touch-type'' =
     Inr [(''vendor'', ''own''), (''reg'', cell 9), (''touch-type'', cell 3)] \<and>
   od_get [(''vendor'', ''own''), (''reg'', cell 9), (''touch-type'', cell 3)] ''vendor'' =
     Some ''own''"
proof -
  have merged: "GetMergedProperties touch_cfg touchscreen ''touch-type'' =
     Inr [(''vendor'', ''own''), (''reg'', cell 9), (''touch-type'', cell 3)]"
    by (simp add: GetMergedProperties_def own_props_def od_of_items_def od_values_def
      merge_item_def od_contains_def endswith_def FollowPhandle_def GetPhandle_def
      od_get_def touch_cfg_def touchscreen_def controller_def)
  have names: "distinct (map p_name (od_values (properties touchscreen)))"
    and own: "Property ''vendor'' ''own'' None \<in> set (od_values (properties touchscreen))"
    and other: "p_name (Property ''vendor'' ''own'' None) \<noteq> ''reg''"
      "p_name (Property ''vendor'' ''own'' None) \<noteq> ''touch-type''"
    by (simp_all add: touchscreen_def od_values_def)
  show ?thesis
    using GetMergedProperties_own_value_wins [OF merged names own other] merged
    by simp
qed

subsection \<open>A path whose first segment names no child of a node without shares\<close>

text \<open>
  When the first part of the path names no child and the node has no \<^verbatim>\<open>shares\<close>
  property, \<^verbatim>\<open>ChildNodeFromPath\<close> returns \<^verbatim>\<open>None\<close>.
\<close>

theorem ChildNodeFromPath_absent:
  assumes "path_parts_of relative_path = part # rest"
      and "od_get (subnodes self) part = None"
      and "\<not> od_contains (properties self) ''shares''"
  shows "ChildNodeFromPath cfg self relative_path = Inr None"
  using assms by (subst ChildNodeFromPath_by_parts) simp

theorem ChildNodeFromPath_absent_witness:
  "ChildNodeFromPath reef_cfg chain ''b/c'' = Inr None"
proof -
  have "path_parts_of ''b/c'' = [''b'', ''c'']"
    and "od_get (subnodes chain) ''b'' = None"
    and "\<not> od_contains (properties chain) ''shares''"
    by (simp_all add: path_parts_of_def od_get_def od_contains_def chain_def)
  then show ?thesis
    by (rule ChildNodeFromPath_absent)
qed

subsection \<open>Models for which GetFirmwareUris returns the empty list\<close>

text \<open>
  \<^verbatim>\<open>GetFirmwareUris\<close> returns the empty list when \<^verbatim>\<open>/firmware\<close> resolves to
  \<^verbatim>\<open>None\<close>, in particular for a model without a \<^verbatim>\<open>firmware\<close> child and without a
  \<^verbatim>\<open>shares\<close> property, and when the merged properties of the firmware node lack
  \<^verbatim>\<open>bcs-overlay\<close>.
\<close>

theorem GetFirmwareUris_empty:
  "(ChildNodeFromPath cfg (model_node self) ''/firmware'' = Inr None \<longrightarrow>
      GetFirmwareUris cfg self = Inr []) \<and>
   (od_get (subnodes (model_node self)) ''firmware'' = None \<and>
    \<not> od_contains (properties (model_node self)) ''shares'' \<longrightarrow>
      GetFirmwareUris cfg self = Inr []) \<and>
   (ChildNodeFromPath cfg (model_node self) ''/firmware'' = Inr (Some firmware_node) \<and>
    GetMergedProperties cfg firmware_node ''shares'' = Inr props \<and>
    od_get props ''bcs-overlay'' = None \<longrightarrow>
      GetFirmwareUris cfg self = Inr [])"
proof -
  have parts: "path_parts_of ''/firmware'' = [''firmware'']"
    by (simp add: path_parts_of_def)
  have "ChildNodeFromPath cfg (model_node self) ''/firmware'' = Inr None"
    if "od_get (subnodes (model_node self)) ''firmware'' = None"
      and "\<not> od_contains (properties (model_node self)) ''shares''"
    using parts that by (subst ChildNodeFromPath_by_parts) simp
  then show ?thesis
    by (auto simp: GetFirmwareUris_def)
qed

theorem GetFirmwareUris_empty_witness:
  "GetFirmwareUris reef_cfg caroline = Inr [] \<and>
   GetFirmwareUris reef_cfg (Model (Node ''electro'' [(''firmware'', chain)] []) ''/e'') = Inr []"
proof -
  have none: "od_get (subnodes (model_node caroline)) ''firmware'' = None \<and>
    \<not> od_contains (properties (model_node caroline)) ''shares''"
    by (simp add: caroline_def touch_model_def od_get_def od_contains_def)
  have lacks: "ChildNodeFromPath reef_cfg
      (model_node (Model (Node ''electro'' [(''firmware'', chain)] []) ''/e'')) ''/firmware'' =
        Inr (Some chain) \<and>
    GetMergedProperties reef_cfg chain ''shares'' = Inr [] \<and>
    od_get ([] :: (string, string) odict) ''bcs-overlay'' = None"
    by (simp add: ChildNodeFromPath.simps path_parts_of_def od_get_def
        GetMergedProperties_def own_props_def od_of_items_def od_values_def FollowPhandle_def
        chain_def)
  show ?thesis
    using none lacks
      GetFirmwareUris_empty [of reef_cfg caroline]
      GetFirmwareUris_empty [of reef_cfg "Model (Node ''electro'' [(''firmware'', chain)] []) ''/e''"
        chain "[]"]
    by simp
qed

end
